theory Spec2Isabelle
  imports Main "HOL-Library.AList" "HOL-Library.Sublist"
begin

section \<open>The stub header \<^verbatim>\<open>sys/syscall.h\<close>\<close>

text \<open>
  The repository fragment is one file,
  \<^verbatim>\<open>scripts/cross-build-macos/darwin-headers/sys/syscall.h\<close>.  It is a program in the
  language of the C preprocessor.  The file is kept here character by character, as the
  list of its lines (the line breaks of the file separate the entries; the last line is
  not followed by a line break).
\<close>

definition syscall_h_lines :: "string list" where
  "syscall_h_lines =
    [''/* Stub sys/syscall.h for macOS cross-compilation.'',
     '' *'',
     '' * The real header is part of the macOS SDK (Xcode) and is not available when'',
     '' * cross-compiling from Linux.  jemalloc unconditionally includes it, but only'',
     '' * uses the Linux-specific SYS_* / __NR_* constants that do not exist on macOS'',
     '' * anyway, so an empty stub is sufficient. */'',
     ''#ifndef _SYS_SYSCALL_H_'',
     ''#define _SYS_SYSCALL_H_'',
     ''#endif'']"

text \<open>The name under which the directory \<^verbatim>\<open>darwin-headers\<close> offers the file.\<close>

definition stub_name :: string where
  "stub_name = ''sys/syscall.h''"

text \<open>The identifier of lines 7 and 8.\<close>

definition guard :: string where
  "guard = ''_SYS_SYSCALL_H_''"


section \<open>The preprocessor fragment the file is written in\<close>

text \<open>
  The file uses block comments and the directives \<^verbatim>\<open>#ifndef\<close>, \<^verbatim>\<open>#define\<close> (of an
  object-like macro) and \<^verbatim>\<open>#endif\<close>.  The fragment modelled also has \<^verbatim>\<open>#ifdef\<close>,
  \<^verbatim>\<open>#else\<close>, \<^verbatim>\<open>#undef\<close>, \<^verbatim>\<open>#include <...>\<close>, the operator \<^verbatim>\<open>##\<close> in
  replacement lists, and text lines, so that translation units that include the file and
  observe its effect can be written down.

  Everything else is refused with an error rather than read in some other way:
  \<^verbatim>\<open>#if\<close>, \<^verbatim>\<open>#elif\<close>, \<^verbatim>\<open>#pragma\<close> and the other directives, function-like macros,
  \<^verbatim>\<open>#include "..."\<close>, string literals and character constants, line comments, line
  splicing, trigraphs and digraphs, characters outside the basic source character set,
  and the names that the preprocessor itself gives a meaning to (\<^verbatim>\<open>__LINE__\<close>,
  \<^verbatim>\<open>defined\<close>, ...).  Warnings are not modelled.
\<close>

datatype pp_line =
    Ifdef string
  | Ifndef string
  | Else
  | Endif
  | Define string "string list"
  | Undef string
  | Include string
  | Tokens "string list"

datatype lex_error =
    UnterminatedComment
  | Unsupported string
  | BadDirective string

datatype pp_error =
    Malformed string lex_error
  | IllFormed pp_line
  | ElseWithoutIf
  | EndifWithoutIf
  | UnterminatedConditional
  | FileNotFound string
  | IncludeTooDeep string

subsection \<open>From characters to lines of tokens\<close>

definition newline :: char where
  "newline = CHR 0x0A"

definition backslash :: char where
  "backslash = CHR 0x5C"

text \<open>The text of a file: its lines, with a line break between any two.\<close>

fun join_lines :: "string list \<Rightarrow> string" where
  "join_lines [] = []"
| "join_lines [l] = l"
| "join_lines (l # m # ls) = l @ newline # join_lines (m # ls)"

text \<open>
  Each block comment is replaced by one space.  The flag says whether the scan is inside
  a comment.  A comment still open at the end of the file is an error.  A backslash or
  two question marks in a row, inside a comment or not, could splice lines or stand for
  another character before comments are found; a text that has them is refused.
\<close>

fun strip_comments :: "bool \<Rightarrow> string \<Rightarrow> lex_error + string" where
  "strip_comments False [] = Inr []"
| "strip_comments True [] = Inl UnterminatedComment"
| "strip_comments False [c] = (if c = backslash then Inl (Unsupported [c]) else Inr [c])"
| "strip_comments True [c] = Inl UnterminatedComment"
| "strip_comments False (c # d # cs) =
     (if c = backslash \<or> (c = CHR ''?'' \<and> d = CHR ''?'') then Inl (Unsupported [c, d])
      else if c = CHR ''/'' \<and> d = CHR ''*''
      then (case strip_comments True cs of Inl e \<Rightarrow> Inl e | Inr r \<Rightarrow> Inr (CHR '' '' # r))
      else (case strip_comments False (d # cs) of Inl e \<Rightarrow> Inl e | Inr r \<Rightarrow> Inr (c # r)))"
| "strip_comments True (c # d # cs) =
     (if c = backslash \<or> (c = CHR ''?'' \<and> d = CHR ''?'') then Inl (Unsupported [c, d])
      else if c = CHR ''*'' \<and> d = CHR ''/''
      then strip_comments False cs
      else strip_comments True (d # cs))"

text \<open>Cutting the text at the line breaks; \<open>acc\<close> is the line read so far.\<close>

fun split_lines :: "string \<Rightarrow> string \<Rightarrow> string list" where
  "split_lines acc [] = [acc]"
| "split_lines acc (c # cs) =
     (if c = newline then acc # split_lines [] cs else split_lines (acc @ [c]) cs)"

definition is_space :: "char \<Rightarrow> bool" where
  "is_space c = (c = CHR '' '' \<or> c = CHR 0x09)"

definition is_digit :: "char \<Rightarrow> bool" where
  "is_digit c = (let n = (of_char c :: nat) in 48 \<le> n \<and> n \<le> 57)"

definition is_ident_char :: "char \<Rightarrow> bool" where
  "is_ident_char c =
     (let n = (of_char c :: nat) in
      (48 \<le> n \<and> n \<le> 57) \<or> (65 \<le> n \<and> n \<le> 90) \<or> n = 95 \<or> (97 \<le> n \<and> n \<le> 122))"

text \<open>
  The punctuators of C, longest first, and the pairs of characters that start something
  outside the fragment: a comment, a trigraph, a digraph, the \<^verbatim>\<open>::\<close> of later
  versions of C.
\<close>

definition puncts3 :: "string list" where
  "puncts3 = [''<<='', ''>>='', ''...'']"

definition puncts2 :: "string list" where
  "puncts2 = [''->'', ''++'', ''--'', ''<<'', ''>>'', ''<='', ''>='', ''=='', ''!='', ''&&'',
              ''||'', ''*='', ''/='', ''%='', ''+='', ''-='', ''&='', ''^='', ''|='', ''##'']"

definition puncts1 :: string where
  "puncts1 = ''[](){}.&*+-~!/%<>^|?:;=,#''"

definition refused2 :: "string list" where
  "refused2 = [''//'', ''/*'', ''??'', ''<:'', '':>'', ''<%'', ''%>'', ''%:'', ''::'']"

definition punct_len :: "string \<Rightarrow> nat" where
  "punct_len cs =
     (if take 3 cs \<in> set puncts3 then 3
      else if take 2 cs \<in> set puncts2 then 2
      else if cs \<noteq> [] \<and> hd cs \<in> set puncts1 then 1
      else 0)"

text \<open>
  The tokens of a line, by the longest match.  \<open>acc\<close> is the identifier or the
  preprocessing number read so far.  A preprocessing number starts with a digit, or with
  a period and a digit, and goes on with letters, digits, underscores, periods, and a
  sign after one of \<^verbatim>\<open>e E p P\<close>.  A character that starts no token of the fragment is
  refused.
\<close>

definition flush :: "string \<Rightarrow> string list" where
  "flush acc = (if acc = [] then [] else [acc])"

definition continues :: "string \<Rightarrow> char \<Rightarrow> bool" where
  "continues acc c =
     (is_ident_char c \<or>
      (acc \<noteq> [] \<and> (is_digit (hd acc) \<or> hd acc = CHR ''.'') \<and>
       (c = CHR ''.'' \<or> ((c = CHR ''+'' \<or> c = CHR ''-'') \<and> last acc \<in> set ''eEpP''))))"

definition cons_token :: "string \<Rightarrow> lex_error + string list \<Rightarrow> lex_error + string list" where
  "cons_token t r = (case r of Inl e \<Rightarrow> Inl e | Inr ts \<Rightarrow> Inr (t # ts))"

fun lex_line :: "string \<Rightarrow> string \<Rightarrow> lex_error + string list" where
  "lex_line acc [] = Inr (flush acc)"
| "lex_line acc (c # cs) =
     (if continues acc c then lex_line (acc @ [c]) cs
      else if acc \<noteq> [] then cons_token acc (lex_line [] (c # cs))
      else if is_space c then lex_line [] cs
      else if c = CHR ''.'' \<and> cs \<noteq> [] \<and> is_digit (hd cs) then lex_line [c] cs
      else if take 2 (c # cs) \<in> set refused2 then Inl (Unsupported (take 2 (c # cs)))
      else if punct_len (c # cs) = 0 then Inl (Unsupported [c])
      else cons_token (take (punct_len (c # cs)) (c # cs))
             (lex_line [] (drop (punct_len (c # cs) - 1) cs)))"

definition is_identifier :: "string \<Rightarrow> bool" where
  "is_identifier s = (s \<noteq> [] \<and> \<not> is_digit (hd s) \<and> list_all is_ident_char s)"

text \<open>A string that is one token of the fragment, and nothing else.\<close>

definition is_token :: "string \<Rightarrow> bool" where
  "is_token s = (lex_line [] s = Inr [s])"

text \<open>
  A line whose first character that is not white space is \<^verbatim>\<open>#\<close> is a directive; a
  line without tokens yields nothing; any other line is text.  In \<^verbatim>\<open>#define\<close>, the name
  must be followed by white space or by the end of the line: a parenthesis there would
  make the macro function-like.
\<close>

definition one_name :: "string \<Rightarrow> string option" where
  "one_name r =
     (case lex_line [] r of
        Inr [n] \<Rightarrow> if is_identifier n then Some n else None
      | _ \<Rightarrow> None)"

definition parse_define :: "string \<Rightarrow> string \<Rightarrow> lex_error + pp_line option" where
  "parse_define l r =
     (let r1 = dropWhile is_space r;
          n = takeWhile is_ident_char r1;
          rest = dropWhile is_ident_char r1
      in if \<not> is_identifier n \<or> (rest \<noteq> [] \<and> \<not> is_space (hd rest)) then Inl (BadDirective l)
         else case lex_line [] rest of
                Inl e \<Rightarrow> Inl e
              | Inr body \<Rightarrow> Inr (Some (Define n body)))"

definition parse_include :: "string \<Rightarrow> string \<Rightarrow> lex_error + pp_line option" where
  "parse_include l r =
     (case dropWhile is_space r of
        [] \<Rightarrow> Inl (BadDirective l)
      | c # cs \<Rightarrow>
          (let f = takeWhile (\<lambda>x. x \<noteq> CHR ''>'') cs;
               rest = dropWhile (\<lambda>x. x \<noteq> CHR ''>'') cs
           in if c = CHR ''<'' \<and> f \<noteq> [] \<and> rest \<noteq> [] \<and> list_all is_space (tl rest)
              then Inr (Some (Include f))
              else Inl (BadDirective l)))"

definition parse_directive :: "string \<Rightarrow> string \<Rightarrow> lex_error + pp_line option" where
  "parse_directive l r =
     (let r1 = dropWhile is_space r;
          d = takeWhile is_ident_char r1;
          args = dropWhile is_ident_char r1
      in if d = [] then (if args = [] then Inr None else Inl (BadDirective l))
         else if d = ''define'' then parse_define l args
         else if d = ''include'' then parse_include l args
         else if d = ''ifdef'' then
           (case one_name args of Some n \<Rightarrow> Inr (Some (Ifdef n)) | None \<Rightarrow> Inl (BadDirective l))
         else if d = ''ifndef'' then
           (case one_name args of Some n \<Rightarrow> Inr (Some (Ifndef n)) | None \<Rightarrow> Inl (BadDirective l))
         else if d = ''undef'' then
           (case one_name args of Some n \<Rightarrow> Inr (Some (Undef n)) | None \<Rightarrow> Inl (BadDirective l))
         else if d = ''else'' then
           (if lex_line [] args = Inr [] then Inr (Some Else) else Inl (BadDirective l))
         else if d = ''endif'' then
           (if lex_line [] args = Inr [] then Inr (Some Endif) else Inl (BadDirective l))
         else Inl (BadDirective l))"

definition parse_line :: "string \<Rightarrow> lex_error + pp_line option" where
  "parse_line l =
     (case dropWhile is_space l of
        [] \<Rightarrow> Inr None
      | c # r \<Rightarrow>
          if c = CHR ''#'' then parse_directive l r
          else (case lex_line [] (c # r) of
                  Inl e \<Rightarrow> Inl e
                | Inr ts \<Rightarrow> Inr (Some (Tokens ts))))"

fun parse_lines :: "string list \<Rightarrow> lex_error + pp_line list" where
  "parse_lines [] = Inr []"
| "parse_lines (l # ls) =
     (case parse_line l of
        Inl e \<Rightarrow> Inl e
      | Inr r \<Rightarrow>
          (case parse_lines ls of
             Inl e \<Rightarrow> Inl e
           | Inr rs \<Rightarrow> Inr ((case r of None \<Rightarrow> [] | Some p \<Rightarrow> [p]) @ rs)))"

definition parse_file :: "string list \<Rightarrow> lex_error + pp_line list" where
  "parse_file ls =
     (case strip_comments False (join_lines ls) of
        Inl e \<Rightarrow> Inl e
      | Inr cs \<Rightarrow> parse_lines (split_lines [] cs))"


text \<open>The three directives that the comment block and the lines 7 to 9 amount to.\<close>

definition syscall_h_directives :: "pp_line list" where
  "syscall_h_directives = [Ifndef guard, Define guard [], Endif]"


subsection \<open>Executing the lines\<close>

text \<open>
  The state of the preprocessor: the table of the object-like macros that are defined,
  each with its replacement list as written, and the tokens handed on to the compiler
  proper so far.
\<close>

type_synonym macro_table = "(string \<times> string list) list"

record pp_state =
  macros :: macro_table
  emitted :: "string list"

definition lookup_macro :: "pp_state \<Rightarrow> string \<Rightarrow> string list option" where
  "lookup_macro st n = map_of (macros st) n"

definition is_defined :: "pp_state \<Rightarrow> string \<Rightarrow> bool" where
  "is_defined st n = (map_of (macros st) n \<noteq> None)"

text \<open>
  The operator \<^verbatim>\<open>##\<close> in a replacement list joins the tokens on its two sides into
  one, from left to right.  There is no result when the operator stands at either end,
  next to another \<^verbatim>\<open>##\<close>, or when what it joins is not one token.
\<close>

definition paste_op :: string where
  "paste_op = ''##''"

fun paste :: "string list \<Rightarrow> string list option" where
  "paste [] = Some []"
| "paste [a] = (if a = paste_op then None else Some [a])"
| "paste (a # h # ts) =
     (if a = paste_op then None
      else if h = paste_op then
        (case ts of
           [] \<Rightarrow> None
         | b # rest \<Rightarrow>
             if b = paste_op \<or> \<not> is_token (a @ b) then None else paste ((a @ b) # rest))
      else map_option (Cons a) (paste (h # ts)))"

text \<open>
  What a macro is replaced by.  (A replacement list that cannot be pasted is never put
  into the table by \<^verbatim>\<open>#define\<close>, see \<open>step\<close>; for a table that has one all the
  same, the list stands as written.)
\<close>

definition pasted :: "string list \<Rightarrow> string list" where
  "pasted body = (case paste body of None \<Rightarrow> body | Some r \<Rightarrow> r)"

text \<open>
  Macro replacement of a run of tokens.  A macro name is replaced by its replacement
  list, pasted, which is scanned again with that name barred (\<open>hs\<close> holds the barred
  names), so that a macro that mentions itself is not replaced forever.
\<close>

function expand :: "macro_table \<Rightarrow> string list \<Rightarrow> string list \<Rightarrow> string list" where
  "expand ms hs [] = []"
| "expand ms hs (t # ts) =
     (case map_of ms t of
        None \<Rightarrow> t # expand ms hs ts
      | Some body \<Rightarrow>
          if t \<in> set hs then t # expand ms hs ts
          else expand ms (t # hs) (pasted body) @ expand ms hs ts)"
  by pat_completeness auto
termination
proof (relation "measures [\<lambda>(ms, hs, ts). card (fst ` set ms - set hs), \<lambda>(ms, hs, ts). length ts]",
    goal_cases)
  case 1
  show ?case by simp
next
  case (2 ms hs t ts)
  show ?case by simp
next
  case (3 ms hs t ts body)
  show ?case by simp
next
  case (4 ms hs t ts body)
  from 4 have "t \<in> fst ` set ms"
    by (metis map_of_eq_None_iff option.distinct(1))
  with 4 have "fst ` set ms - set (t # hs) \<subset> fst ` set ms - set hs"
    by auto
  then have "card (fst ` set ms - set (t # hs)) < card (fst ` set ms - set hs)"
    by (intro psubset_card_mono) auto
  then show ?case by simp
next
  case (5 ms hs t ts body)
  show ?case by simp
qed

text \<open>
  Names that the preprocessor gives a meaning of its own, which may depend on the line,
  the file or the compiler; so do the names that start with \<^verbatim>\<open>__has_\<close> or
  \<^verbatim>\<open>__is_\<close>.  A line that uses one is outside the fragment.
\<close>

definition special_names :: "string list" where
  "special_names =
     [''defined'', ''_Pragma'', ''__LINE__'', ''__FILE__'', ''__DATE__'', ''__TIME__'',
      ''__TIMESTAMP__'', ''__COUNTER__'', ''__INCLUDE_LEVEL__'', ''__BASE_FILE__'',
      ''__FILE_NAME__'', ''__VA_ARGS__'', ''__VA_OPT__'', ''__MODULE__'',
      ''__building_module'', ''__pragma'', ''__identifier'']"

definition plain_name :: "string \<Rightarrow> bool" where
  "plain_name n =
     (is_identifier n \<and> n \<notin> set special_names \<and>
      \<not> prefix ''__has_'' n \<and> \<not> prefix ''__is_'' n)"

definition plain_token :: "string \<Rightarrow> bool" where
  "plain_token t = (is_token t \<and> (is_identifier t \<longrightarrow> plain_name t))"

text \<open>
  The lines of the fragment: names are identifiers, tokens are tokens, a replacement
  list can be pasted, and a text line does not start with \<^verbatim>\<open>#\<close>.
\<close>

fun well_formed :: "pp_line \<Rightarrow> bool" where
  "well_formed (Ifdef n) = plain_name n"
| "well_formed (Ifndef n) = plain_name n"
| "well_formed Else = True"
| "well_formed Endif = True"
| "well_formed (Define n body) =
     (plain_name n \<and> list_all plain_token body \<and>
      (case paste body of None \<Rightarrow> False | Some r \<Rightarrow> list_all plain_token r))"
| "well_formed (Undef n) = plain_name n"
| "well_formed (Include f) = True"
| "well_formed (Tokens ts) = (list_all plain_token ts \<and> (ts = [] \<or> hd ts \<noteq> ''#''))"

text \<open>
  The open conditionals of the file being read, innermost first.  Each entry says
  whether its current group is read, and whether its \<^verbatim>\<open>#else\<close> has been seen.  Lines are
  obeyed only where every open conditional is in a group that is read.
\<close>

type_synonym cond = "bool \<times> bool"

definition active :: "cond list \<Rightarrow> bool" where
  "active stk = list_all fst stk"

text \<open>
  One line.  \<open>inc\<close> is what \<^verbatim>\<open>#include\<close> does with a file name.  A line that is to be
  obeyed and is not of the fragment is an error.  Defining a macro again replaces its
  replacement list (compilers warn when the new list differs from the old one).
\<close>

fun step :: "(string \<Rightarrow> pp_state \<Rightarrow> pp_error + pp_state) \<Rightarrow> pp_line \<Rightarrow>
    cond list \<times> pp_state \<Rightarrow> pp_error + cond list \<times> pp_state" where
  "step inc (Ifdef n) (stk, st) =
     (if active stk \<and> \<not> well_formed (Ifdef n) then Inl (IllFormed (Ifdef n))
      else Inr ((active stk \<and> is_defined st n, False) # stk, st))"
| "step inc (Ifndef n) (stk, st) =
     (if active stk \<and> \<not> well_formed (Ifndef n) then Inl (IllFormed (Ifndef n))
      else Inr ((active stk \<and> \<not> is_defined st n, False) # stk, st))"
| "step inc Else (stk, st) =
     (case stk of
        [] \<Rightarrow> Inl ElseWithoutIf
      | (taken, seen) # rest \<Rightarrow>
          if seen then Inl ElseWithoutIf else Inr ((\<not> taken, True) # rest, st))"
| "step inc Endif (stk, st) =
     (case stk of [] \<Rightarrow> Inl EndifWithoutIf | c # rest \<Rightarrow> Inr (rest, st))"
| "step inc (Define n body) (stk, st) =
     (if \<not> active stk then Inr (stk, st)
      else if \<not> well_formed (Define n body) then Inl (IllFormed (Define n body))
      else Inr (stk, st\<lparr>macros := AList.update n body (macros st)\<rparr>))"
| "step inc (Undef n) (stk, st) =
     (if \<not> active stk then Inr (stk, st)
      else if \<not> well_formed (Undef n) then Inl (IllFormed (Undef n))
      else Inr (stk, st\<lparr>macros := AList.delete n (macros st)\<rparr>))"
| "step inc (Include f) (stk, st) =
     (if \<not> active stk then Inr (stk, st)
      else case inc f st of Inl e \<Rightarrow> Inl e | Inr st' \<Rightarrow> Inr (stk, st'))"
| "step inc (Tokens ts) (stk, st) =
     (if \<not> active stk then Inr (stk, st)
      else if \<not> well_formed (Tokens ts) then Inl (IllFormed (Tokens ts))
      else Inr (stk, st\<lparr>emitted := emitted st @ expand (macros st) [] ts\<rparr>))"

fun exec_lines :: "(string \<Rightarrow> pp_state \<Rightarrow> pp_error + pp_state) \<Rightarrow> pp_line list \<Rightarrow>
    cond list \<times> pp_state \<Rightarrow> pp_error + cond list \<times> pp_state" where
  "exec_lines inc [] s = Inr s"
| "exec_lines inc (l # ls) s =
     (case step inc l s of Inl e \<Rightarrow> Inl e | Inr s' \<Rightarrow> exec_lines inc ls s')"

text \<open>A whole file: it starts with no conditional open and must end so.\<close>

definition process_file :: "(string \<Rightarrow> pp_state \<Rightarrow> pp_error + pp_state) \<Rightarrow> pp_line list \<Rightarrow>
    pp_state \<Rightarrow> pp_error + pp_state" where
  "process_file inc ls st =
     (case exec_lines inc ls ([], st) of
        Inl e \<Rightarrow> Inl e
      | Inr (stk, st') \<Rightarrow> if stk = [] then Inr st' else Inl UnterminatedConditional)"

text \<open>
  The include path maps a file name to the lines of the file found under it.  A file
  that is not there, a file that cannot be read as lines of the fragment, and nesting
  beyond the limit are errors of the \<^verbatim>\<open>#include\<close> line.
  \<open>include_file d\<close> is \<^verbatim>\<open>#include\<close> where \<open>d\<close> more levels of nesting are allowed; the
  limit of a compiler is its own choice, and a translation unit is a file processed
  with \<open>include_file d\<close> for that limit \<open>d\<close>.
\<close>

type_synonym inc_path = "string \<Rightarrow> string list option"

fun include_file :: "nat \<Rightarrow> inc_path \<Rightarrow> string \<Rightarrow> pp_state \<Rightarrow> pp_error + pp_state" where
  "include_file 0 path f st = Inl (IncludeTooDeep f)"
| "include_file (Suc d) path f st =
     (case path f of
        None \<Rightarrow> Inl (FileNotFound f)
      | Some src \<Rightarrow>
          (case parse_file src of
             Inl e \<Rightarrow> Inl (Malformed f e)
           | Inr ls \<Rightarrow> process_file (include_file d path) ls st))"

text \<open>The state with no macro defined and nothing emitted.\<close>

definition initial_state :: pp_state where
  "initial_state = \<lparr>macros = [], emitted = []\<rparr>"

text \<open>The directory \<^verbatim>\<open>darwin-headers\<close> as an include path: it holds the stub and nothing else.\<close>

definition darwin_headers :: inc_path where
  "darwin_headers = (\<lambda>f. if f = stub_name then Some syscall_h_lines else None)"


subsection \<open>What a file defines, and where a name is mentioned\<close>

text \<open>The \<^verbatim>\<open>#define\<close> lines of a file, in order.\<close>

fun defines_of :: "pp_line list \<Rightarrow> (string \<times> string list) list" where
  "defines_of [] = []"
| "defines_of (Define n body # ls) = (n, body) # defines_of ls"
| "defines_of (l # ls) = defines_of ls"

text \<open>
  A line mentions a name when it tests, defines or undefines it, has it among its
  tokens, or defines a macro whose replacement list, pasted, has it.  (What an
  \<^verbatim>\<open>#include\<close> line brings in is judged on the included file.)
\<close>

fun mentions :: "string \<Rightarrow> pp_line \<Rightarrow> bool" where
  "mentions g (Ifdef n) = (n = g)"
| "mentions g (Ifndef n) = (n = g)"
| "mentions g Else = False"
| "mentions g Endif = False"
| "mentions g (Define n body) = (n = g \<or> g \<in> set (pasted body))"
| "mentions g (Undef n) = (n = g)"
| "mentions g (Include f) = False"
| "mentions g (Tokens ts) = (g \<in> set ts)"

definition quiet_lines :: "string \<Rightarrow> pp_line list \<Rightarrow> bool" where
  "quiet_lines g ls = list_all (\<lambda>l. \<not> mentions g l) ls"






subsection \<open>States and translation units used as examples\<close>

text \<open>A state in which the guard is defined before the stub is read, with tokens emitted.\<close>

definition sdk_seen :: pp_state where
  "sdk_seen = \<lparr>macros = [(guard, []), (''SYS_exit'', [''1''])], emitted = [''int'', ''x'', '';'']\<rparr>"

text \<open>A state in which the guard is defined with a replacement list of its own.\<close>

definition guard_taken :: pp_state where
  "guard_taken = \<lparr>macros = [(guard, [''1''])], emitted = []\<rparr>"


text \<open>
  A unit that builds the guard by pasting, without writing it out; the \<^verbatim>\<open>#include\<close>
  in question would stand between the two lines:
  \<^verbatim>\<open>
  #define X _SYS_ ## SYSCALL_H_
  X
  \<close>
\<close>

definition paste_unit_pre :: "pp_line list" where
  "paste_unit_pre = [Define ''X'' [''_SYS_'', ''##'', ''SYSCALL_H_'']]"

definition paste_unit_suf :: "pp_line list" where
  "paste_unit_suf = [Tokens [''X'']]"




section \<open>Properties of the stub\<close>

subsection \<open>What reading the stub does\<close>

lemma guard_plain: "plain_name guard"
  by code_simp

lemma parse_stub: "parse_file syscall_h_lines = Inr syscall_h_directives"
  by code_simp

lemma stub_process:
  "process_file inc syscall_h_directives st =
     Inr (if is_defined st guard then st else st\<lparr>macros := AList.update guard [] (macros st)\<rparr>)"
  by (simp add: process_file_def syscall_h_directives_def active_def is_defined_def guard_plain)

lemma stub_include:
  assumes "path stub_name = Some syscall_h_lines"
  shows "include_file (Suc d) path stub_name st =
     Inr (if is_defined st guard then st else st\<lparr>macros := AList.update guard [] (macros st)\<rparr>)"
  using assms by (simp add: parse_stub stub_process)

lemma stub_keeps:
  "\<exists>st'. process_file inc syscall_h_directives st = Inr st' \<and>
      (\<forall>n body. lookup_macro st n = Some body \<longrightarrow> lookup_macro st' n = Some body)"
  by (simp add: stub_process lookup_macro_def is_defined_def update_conv')

lemma stub_include_keeps:
  assumes "path stub_name = Some syscall_h_lines"
  shows "\<exists>st'. include_file (Suc d) path stub_name st = Inr st' \<and>
      (\<forall>n body. lookup_macro st n = Some body \<longrightarrow> lookup_macro st' n = Some body)"
  using assms stub_keeps [of "include_file d path" st] by (simp add: parse_stub)

lemma fresh_update: "map_of ms k = None \<Longrightarrow> AList.update k v ms \<noteq> ms"
proof
  assume none: "map_of ms k = None" and same: "AList.update k v ms = ms"
  from same have "map_of (AList.update k v ms) k = map_of ms k"
    by simp
  with none show False
    by (simp add: update_conv')
qed

lemma darwin_headers_stub: "darwin_headers stub_name = Some syscall_h_lines"
  by (simp add: darwin_headers_def)

lemma repeated_stub:
  assumes "path stub_name = Some syscall_h_lines"
  shows "exec_lines (include_file (Suc d) path) (replicate n (Include stub_name)) (stk, st) =
     Inr (stk, if n = 0 \<or> \<not> active stk \<or> is_defined st guard then st
               else st\<lparr>macros := AList.update guard [] (macros st)\<rparr>)"
proof (induction n arbitrary: st)
  case 0
  show ?case by simp
next
  case (Suc n)
  show ?case
    by (simp add: Suc.IH stub_include [where path = path, OF assms] is_defined_def update_conv'
        del: include_file.simps)
qed


subsection \<open>Where the error for a missing file comes from\<close>

lemma step_not_found:
  assumes "\<And>f s. inc f s \<noteq> Inl (FileNotFound g)"
  shows "step inc l (stk, st) \<noteq> Inl (FileNotFound g)"
  using assms [of _ st]
  by (cases l) (auto split: list.splits option.splits sum.splits)

lemma exec_not_found:
  assumes "\<And>f s. inc f s \<noteq> Inl (FileNotFound g)"
  shows "exec_lines inc ls s \<noteq> Inl (FileNotFound g)"
proof (induction ls arbitrary: s)
  case Nil
  show ?case by simp
next
  case (Cons l ls)
  obtain stk st where s: "s = (stk, st)" by (cases s)
  from step_not_found [of inc g l stk st, OF assms] Cons.IH show ?case
    by (auto simp add: s split: sum.splits)
qed

lemma process_not_found:
  assumes "\<And>f s. inc f s \<noteq> Inl (FileNotFound g)"
  shows "process_file inc ls st \<noteq> Inl (FileNotFound g)"
  using exec_not_found [of inc g ls "([], st)", OF assms]
  by (auto simp add: process_file_def split: sum.splits)

lemma include_not_found:
  assumes "path g \<noteq> None"
  shows "include_file n path f st \<noteq> Inl (FileNotFound g)"
proof (induction n arbitrary: f st)
  case 0
  show ?case by simp
next
  case (Suc n)
  have "process_file (include_file n path) ls st \<noteq> Inl (FileNotFound g)" for ls
    by (rule process_not_found) (rule Suc.IH)
  with assms show ?case
    by (auto split: option.splits sum.splits)
qed

subsection \<open>Lines that do not mention a name cannot tell whether it is defined\<close>



















subsection \<open>The claims\<close>

text \<open>
  C1.  Wherever the stub is on the include path, reading it succeeds, hands no token to
  the compiler, and leaves every macro other than \<^verbatim>\<open>_SYS_SYSCALL_H_\<close> as it was; read
  for the first time (the guard not yet defined), it defines the guard with an empty
  replacement list.
\<close>

theorem first_inclusion_defines_only_guard:
  assumes "path stub_name = Some syscall_h_lines"
  shows "\<exists>st'. include_file (Suc d) path stub_name st = Inr st' \<and>
           emitted st' = emitted st \<and>
           (\<forall>n. n \<noteq> guard \<longrightarrow> lookup_macro st' n = lookup_macro st n) \<and>
           (\<not> is_defined st guard \<longrightarrow> lookup_macro st' guard = Some [])"
  by (simp add: stub_include [where path = path, OF assms] lookup_macro_def update_conv'
      del: include_file.simps)

theorem first_inclusion_defines_only_guard_witness:
  "darwin_headers stub_name = Some syscall_h_lines \<and>
   \<not> is_defined initial_state guard \<and>
   (\<exists>st'. include_file (Suc 0) darwin_headers stub_name initial_state = Inr st' \<and>
           emitted st' = emitted initial_state \<and>
           (\<forall>n. n \<noteq> guard \<longrightarrow> lookup_macro st' n = lookup_macro initial_state n) \<and>
           lookup_macro st' guard = Some [])"
  using first_inclusion_defines_only_guard [of darwin_headers 0 initial_state]
  by (simp add: darwin_headers_stub is_defined_def initial_state_def del: include_file.simps)

text \<open>
  C2.  Including the stub \<open>n \<ge> 1\<close> times in a row, from any state and under any open
  conditionals, gives the same result (macro table, emitted tokens, open conditionals)
  as including it once.
\<close>

theorem include_stub_idempotent:
  assumes "1 \<le> n" and "path stub_name = Some syscall_h_lines"
  shows "exec_lines (include_file (Suc d) path) (replicate n (Include stub_name)) (stk, st) =
         exec_lines (include_file (Suc d) path) [Include stub_name] (stk, st)"
proof -
  have "exec_lines (include_file (Suc d) path) [Include stub_name] (stk, st) =
        exec_lines (include_file (Suc d) path) (replicate 1 (Include stub_name)) (stk, st)"
    by (simp del: include_file.simps)
  with assms(1) show ?thesis
    by (simp only: repeated_stub [where path = path, OF assms(2)]) simp
qed

theorem include_stub_idempotent_witness:
  "(1::nat) \<le> 3 \<and> darwin_headers stub_name = Some syscall_h_lines \<and>
   exec_lines (include_file (Suc 0) darwin_headers)
     [Include stub_name, Include stub_name, Include stub_name] ([], initial_state) =
   exec_lines (include_file (Suc 0) darwin_headers) [Include stub_name] ([], initial_state) \<and>
   exec_lines (include_file (Suc 0) darwin_headers) [Include stub_name] ([], initial_state) =
   Inr ([], \<lparr>macros = [(guard, [])], emitted = []\<rparr>)"
proof -
  have r: "replicate 3 (Include stub_name) = [Include stub_name, Include stub_name, Include stub_name]"
    by (simp add: numeral_3_eq_3)
  have v: "exec_lines (include_file (Suc 0) darwin_headers) [Include stub_name] ([], initial_state) =
      Inr ([], \<lparr>macros = [(guard, [])], emitted = []\<rparr>)"
    by (simp add: stub_include [where path = darwin_headers, OF darwin_headers_stub] active_def
        is_defined_def initial_state_def del: include_file.simps)
  show ?thesis
    using include_stub_idempotent [of 3 darwin_headers 0 "[]" initial_state]
    by (simp only: r v darwin_headers_stub) simp
qed

text \<open>
  C3, as stated, fails: read from the empty state, the stub changes the macro table,
  because \<^verbatim>\<open>_SYS_SYSCALL_H_\<close> becomes defined.
\<close>

theorem macro_state_changes_counterexample:
  "include_file (Suc 0) darwin_headers stub_name initial_state =
     Inr \<lparr>macros = [(guard, [])], emitted = []\<rparr> \<and>
   lookup_macro initial_state guard = None \<and>
   lookup_macro \<lparr>macros = [(guard, [])], emitted = []\<rparr> guard = Some [] \<and>
   macros \<lparr>macros = [(guard, [])], emitted = []\<rparr> \<noteq> macros initial_state"
  by (simp add: stub_include [where path = darwin_headers, OF darwin_headers_stub]
      is_defined_def initial_state_def lookup_macro_def del: include_file.simps)

text \<open>
  C3, amended.  Reading the stub undefines no macro and changes no replacement list; the
  macros defined afterwards are those defined before together with \<^verbatim>\<open>_SYS_SYSCALL_H_\<close>.
\<close>

theorem macro_state_gains_only_guard:
  assumes "path stub_name = Some syscall_h_lines"
  shows "\<exists>st'. include_file (Suc d) path stub_name st = Inr st' \<and>
           dom (map_of (macros st')) = insert guard (dom (map_of (macros st))) \<and>
           (\<forall>n \<in> dom (map_of (macros st)). map_of (macros st') n = map_of (macros st) n)"
  by (auto simp add: stub_include [where path = path, OF assms] is_defined_def update_conv'
      simp del: include_file.simps)

theorem macro_state_gains_only_guard_witness:
  "darwin_headers stub_name = Some syscall_h_lines \<and>
   (\<exists>st'. include_file (Suc 0) darwin_headers stub_name
            \<lparr>macros = [(''NDEBUG'', [])], emitted = []\<rparr> = Inr st' \<and>
      dom (map_of (macros st')) = {guard, ''NDEBUG''} \<and>
      map_of (macros st') ''NDEBUG'' = Some [])"
  using macro_state_gains_only_guard [of darwin_headers 0 "\<lparr>macros = [(''NDEBUG'', [])], emitted = []\<rparr>"]
  by (simp add: darwin_headers_stub del: include_file.simps)

text \<open>
  C5.  The file has nine lines.  The first six are one block comment, which the
  preprocessor replaces by a space; the other three are the directives \<^verbatim>\<open>#ifndef\<close>,
  \<^verbatim>\<open>#define\<close> and \<^verbatim>\<open>#endif\<close> of the guard; the whole file parses to these three
  directives and nothing else.
\<close>

theorem nine_lines_of_include_guard:
  "length syscall_h_lines = 9 \<and>
   strip_comments False (join_lines (take 6 syscall_h_lines)) = Inr '' '' \<and>
   drop 6 syscall_h_lines =
     [''#ifndef _SYS_SYSCALL_H_'', ''#define _SYS_SYSCALL_H_'', ''#endif''] \<and>
   map parse_line (drop 6 syscall_h_lines) =
     [Inr (Some (Ifndef guard)), Inr (Some (Define guard [])), Inr (Some Endif)] \<and>
   parse_file syscall_h_lines = Inr [Ifndef guard, Define guard [], Endif]"
  by code_simp

text \<open>
  C6.  The text of the file, as the preprocessor reads it, has one \<^verbatim>\<open>#define\<close> line,
  and it defines \<^verbatim>\<open>_SYS_SYSCALL_H_\<close> with an empty replacement list.  Reading the
  stub where the guard is not defined defines it, so the macro table changes, and changes
  the definition of no other name; reading it where the guard is defined already
  (whatever its replacement list) adds no definition of it: the macro table stays as it
  is.  So a second reading, after the first, defines nothing.
\<close>

theorem only_macro_defined_is_guard:
  assumes "path stub_name = Some syscall_h_lines"
  shows "(\<exists>ds. parse_file syscall_h_lines = Inr ds \<and> defines_of ds = [(guard, [])]) \<and>
    defines_of syscall_h_directives = [(guard, [])] \<and>
    (\<exists>st'. include_file (Suc d) path stub_name st = Inr st' \<and>
       (\<forall>n. lookup_macro st' n \<noteq> lookup_macro st n \<longrightarrow> n = guard) \<and>
       (\<forall>body. lookup_macro st guard = Some body \<longrightarrow> macros st' = macros st) \<and>
       (lookup_macro st guard = None \<longrightarrow>
          lookup_macro st' guard = Some [] \<and> macros st' \<noteq> macros st) \<and>
       include_file (Suc d) path stub_name st' = Inr st')"
  by (simp add: stub_include [where path = path, OF assms] lookup_macro_def update_conv'
        is_defined_def syscall_h_directives_def parse_stub fresh_update del: include_file.simps)

theorem only_macro_defined_is_guard_witness:
  "darwin_headers stub_name = Some syscall_h_lines \<and>
   parse_file syscall_h_lines = Inr [Ifndef guard, Define guard [], Endif] \<and>
   defines_of [Ifndef guard, Define guard [], Endif] = [(guard, [])] \<and>
   lookup_macro initial_state guard = None \<and>
   include_file (Suc 0) darwin_headers stub_name initial_state =
     Inr \<lparr>macros = [(guard, [])], emitted = []\<rparr> \<and>
   lookup_macro \<lparr>macros = [(guard, [])], emitted = []\<rparr> guard = Some [] \<and>
   macros \<lparr>macros = [(guard, [])], emitted = []\<rparr> \<noteq> macros initial_state \<and>
   include_file (Suc 0) darwin_headers stub_name \<lparr>macros = [(guard, [])], emitted = []\<rparr> =
     Inr \<lparr>macros = [(guard, [])], emitted = []\<rparr> \<and>
   lookup_macro guard_taken guard = Some [''1''] \<and>
   include_file (Suc 0) darwin_headers stub_name guard_taken = Inr guard_taken"
proof -
  have v: "include_file (Suc 0) darwin_headers stub_name initial_state =
      Inr \<lparr>macros = [(guard, [])], emitted = []\<rparr>"
    by (simp add: stub_include [where path = darwin_headers, OF darwin_headers_stub]
        is_defined_def initial_state_def del: include_file.simps)
  have p: "parse_file syscall_h_lines = Inr [Ifndef guard, Define guard [], Endif]"
    by (simp add: parse_stub syscall_h_directives_def)
  have e: "lookup_macro initial_state guard = None"
    by (simp add: lookup_macro_def initial_state_def)
  have t: "lookup_macro guard_taken guard = Some [''1'']"
    by (simp add: lookup_macro_def guard_taken_def)
  have c: "defines_of [Ifndef guard, Define guard [], Endif] = [(guard, [])]"
    by simp
  have w1: "lookup_macro \<lparr>macros = [(guard, [])], emitted = []\<rparr> guard = Some []"
    by (simp add: lookup_macro_def)
  have w2: "macros \<lparr>macros = [(guard, [])], emitted = []\<rparr> \<noteq> macros initial_state"
    by (simp add: initial_state_def)
  have w3: "include_file (Suc 0) darwin_headers stub_name \<lparr>macros = [(guard, [])], emitted = []\<rparr> =
     Inr \<lparr>macros = [(guard, [])], emitted = []\<rparr>"
    by (simp add: stub_include [where path = darwin_headers, OF darwin_headers_stub]
        is_defined_def del: include_file.simps)
  have w4: "include_file (Suc 0) darwin_headers stub_name guard_taken = Inr guard_taken"
    by (simp add: stub_include [where path = darwin_headers, OF darwin_headers_stub]
        is_defined_def guard_taken_def del: include_file.simps)
  show ?thesis
    using only_macro_defined_is_guard [of darwin_headers 0 initial_state]
      only_macro_defined_is_guard [of darwin_headers 0 guard_taken]
    by (simp only: darwin_headers_stub v p e t c w1 w2 w3 w4 simp_thms)
qed

text \<open>
  C7.  The text of the stub is read without a lexical error, and its directives are
  obeyed without an error from every state, whatever \<^verbatim>\<open>#include\<close> would do, and
  without defining again a macro that is defined (which is what compilers warn about); so
  including the stub succeeds wherever the include path has it.  Where the include path
  has no file of that name, the \<^verbatim>\<open>#include\<close> line fails with the error for a missing
  file, which comes from the search and not from the stub; and where the path has a file
  of that name, no unit fails with that error for that name.
\<close>

theorem stub_never_fails:
  "parse_file syscall_h_lines = Inr syscall_h_directives \<and>
   (\<exists>st'. process_file inc syscall_h_directives st = Inr st' \<and>
      (\<forall>n body. lookup_macro st n = Some body \<longrightarrow> lookup_macro st' n = Some body)) \<and>
   (path stub_name = Some syscall_h_lines \<longrightarrow>
      (\<exists>st'. include_file (Suc d) path stub_name st = Inr st' \<and>
         (\<forall>n body. lookup_macro st n = Some body \<longrightarrow> lookup_macro st' n = Some body))) \<and>
   (path stub_name = None \<longrightarrow>
      include_file (Suc d) path stub_name st = Inl (FileNotFound stub_name)) \<and>
   (path stub_name \<noteq> None \<longrightarrow>
      exec_lines (include_file n path) ls (stk, st) \<noteq> Inl (FileNotFound stub_name))"
proof (intro conjI impI)
  show "parse_file syscall_h_lines = Inr syscall_h_directives"
    by (rule parse_stub)
  show "\<exists>st'. process_file inc syscall_h_directives st = Inr st' \<and>
      (\<forall>n body. lookup_macro st n = Some body \<longrightarrow> lookup_macro st' n = Some body)"
    by (rule stub_keeps)
  show "\<exists>st'. include_file (Suc d) path stub_name st = Inr st' \<and>
      (\<forall>n body. lookup_macro st n = Some body \<longrightarrow> lookup_macro st' n = Some body)"
    if "path stub_name = Some syscall_h_lines"
    using that by (rule stub_include_keeps)
  show "include_file (Suc d) path stub_name st = Inl (FileNotFound stub_name)"
    if "path stub_name = None"
    using that by simp
  show "exec_lines (include_file n path) ls (stk, st) \<noteq> Inl (FileNotFound stub_name)"
    if "path stub_name \<noteq> None"
    by (rule exec_not_found) (rule include_not_found [where path = path and g = stub_name, OF that])
qed

theorem stub_never_fails_witness:
  "darwin_headers stub_name = Some syscall_h_lines \<and>
   (\<exists>st'. include_file (Suc 0) darwin_headers stub_name sdk_seen = Inr st' \<and>
      (\<forall>n body. lookup_macro sdk_seen n = Some body \<longrightarrow> lookup_macro st' n = Some body)) \<and>
   Map.empty stub_name = (None :: string list option) \<and>
   include_file (Suc 0) Map.empty stub_name sdk_seen = Inl (FileNotFound stub_name) \<and>
   exec_lines (include_file (Suc 0) darwin_headers) [Include stub_name, Include ''mach/mach.h'']
     ([], sdk_seen) \<noteq> Inl (FileNotFound stub_name) \<and>
   exec_lines (include_file (Suc 0) darwin_headers) [Include stub_name, Include ''mach/mach.h'']
     ([], sdk_seen) = Inl (FileNotFound ''mach/mach.h'')"
proof -
  let ?inc = "\<lambda>(f :: string) (st :: pp_state). (Inl (FileNotFound f) :: pp_error + pp_state)"
  let ?unit = "[Include stub_name, Include ''mach/mach.h'']"
  have v: "exec_lines (include_file (Suc 0) darwin_headers) ?unit ([], sdk_seen) =
      Inl (FileNotFound ''mach/mach.h'')"
    by (simp add: stub_include [where path = darwin_headers, OF darwin_headers_stub] active_def
        del: include_file.simps)
      (simp add: darwin_headers_def stub_name_def)
  have present: "darwin_headers stub_name \<noteq> None"
    by (simp add: darwin_headers_stub)
  have absent: "Map.empty stub_name = (None :: string list option)"
    by simp
  from stub_never_fails [of ?inc sdk_seen darwin_headers 0 "Suc 0" ?unit "[]"]
  have here: "(\<exists>st'. include_file (Suc 0) darwin_headers stub_name sdk_seen = Inr st' \<and>
      (\<forall>n body. lookup_macro sdk_seen n = Some body \<longrightarrow> lookup_macro st' n = Some body)) \<and>
    exec_lines (include_file (Suc 0) darwin_headers) ?unit ([], sdk_seen) \<noteq>
      Inl (FileNotFound stub_name)"
    using darwin_headers_stub present by blast
  from stub_never_fails [of ?inc sdk_seen Map.empty 0 0 "[]" "[]"]
  have gone: "include_file (Suc 0) Map.empty stub_name sdk_seen = Inl (FileNotFound stub_name)"
    using absent by blast
  from here gone v darwin_headers_stub absent show ?thesis
    by blast
qed


text \<open>
  A unit need not write the guard out to observe it: \<open>paste_unit_pre\<close> builds it with
  \<^verbatim>\<open>##\<close>, and so counts as mentioning it.  With the stub included between its two
  lines, the unit emits nothing; without, it emits the name of the guard.
\<close>

lemma pasted_guard_is_observed:
  "\<not> quiet_lines guard paste_unit_pre \<and>
   process_file (include_file (Suc 0) darwin_headers)
     (paste_unit_pre @ Include stub_name # paste_unit_suf) initial_state =
     Inr \<lparr>macros = [(''X'', [''_SYS_'', ''##'', ''SYSCALL_H_'']), (guard, [])], emitted = []\<rparr> \<and>
   process_file (include_file (Suc 0) darwin_headers)
     (paste_unit_pre @ paste_unit_suf) initial_state =
     Inr \<lparr>macros = [(''X'', [''_SYS_'', ''##'', ''SYSCALL_H_''])], emitted = [guard]\<rparr>"
  by code_simp



text \<open>
  C9.  A name that starts with \<^verbatim>\<open>SYS_\<close> or \<^verbatim>\<open>__NR_\<close> is not defined by any line of
  the file, and reading the stub leaves its definition, or its lack of one, as it was.
  Such a name that was undefined is still handed to the compiler as it stands, as it is
  without the stub.
\<close>

theorem no_syscall_constant_defined:
  assumes "path stub_name = Some syscall_h_lines"
    and "prefix ''SYS_'' n \<or> prefix ''__NR_'' n"
  shows "n \<notin> fst ` set (defines_of syscall_h_directives) \<and>
    (\<exists>st'. include_file (Suc d) path stub_name st = Inr st' \<and>
       lookup_macro st' n = lookup_macro st n \<and>
       (\<not> is_defined st n \<longrightarrow>
          expand (macros st') [] [n] = [n] \<and> expand (macros st) [] [n] = [n]))"
proof -
  from assms(2) have ne: "n \<noteq> guard"
    by (auto simp add: guard_def)
  then show ?thesis
    by (simp add: stub_include [where path = path, OF assms(1)] lookup_macro_def update_conv'
      is_defined_def syscall_h_directives_def del: include_file.simps)
qed

theorem no_syscall_constant_defined_witness:
  "darwin_headers stub_name = Some syscall_h_lines \<and>
   prefix ''SYS_'' ''SYS_write'' \<and> \<not> is_defined initial_state ''SYS_write'' \<and>
   ''SYS_write'' \<notin> fst ` set (defines_of syscall_h_directives) \<and>
    (\<exists>st'. include_file (Suc 0) darwin_headers stub_name initial_state = Inr st' \<and>
       lookup_macro st' ''SYS_write'' = lookup_macro initial_state ''SYS_write'' \<and>
       expand (macros st') [] [''SYS_write''] = [''SYS_write''] \<and>
       expand (macros initial_state) [] [''SYS_write''] = [''SYS_write''])"
proof -
  have p: "prefix ''SYS_'' ''SYS_write''" by simp
  have u: "\<not> is_defined initial_state ''SYS_write''"
    by (simp add: is_defined_def initial_state_def)
  show ?thesis
    using no_syscall_constant_defined [of darwin_headers "''SYS_write''" 0 initial_state]
    by (simp only: darwin_headers_stub p u simp_thms)
qed

text \<open>
  C10.  If \<^verbatim>\<open>_SYS_SYSCALL_H_\<close> is defined already when the stub is read, reading it
  returns the state it was given: no token is emitted, the macro table is the same, and
  the open conditionals of the including file are the same.
\<close>

theorem guard_already_defined_noop:
  assumes "path stub_name = Some syscall_h_lines" and "is_defined st guard"
  shows "include_file (Suc d) path stub_name st = Inr st \<and>
         step (include_file (Suc d) path) (Include stub_name) (stk, st) = Inr (stk, st)"
  by (simp add: stub_include [where path = path, OF assms(1)] assms(2) del: include_file.simps)

theorem guard_already_defined_noop_witness:
  "darwin_headers stub_name = Some syscall_h_lines \<and> is_defined sdk_seen guard \<and>
   include_file (Suc 0) darwin_headers stub_name sdk_seen = Inr sdk_seen \<and>
   step (include_file (Suc 0) darwin_headers) (Include stub_name) ([(True, False)], sdk_seen)
     = Inr ([(True, False)], sdk_seen)"
proof -
  have d: "is_defined sdk_seen guard"
    by (simp add: is_defined_def sdk_seen_def)
  show ?thesis
    using guard_already_defined_noop [of darwin_headers sdk_seen 0 "[(True, False)]"]
    by (simp add: darwin_headers_stub d del: include_file.simps step.simps)
qed

end
